theory Spec2Isabelle
  imports Complex_Main
begin

section \<open>Python strings\<close>

text \<open>
  \<^verbatim>\<open>s.index(c)\<close> raises ValueError when \<open>c\<close> does not occur; \<open>None\<close> stands for the
  exception.
\<close>

fun str_index :: "string \<Rightarrow> char \<Rightarrow> nat option" where
  "str_index [] c = None"
| "str_index (x # xs) c =
     (if x = c then Some 0 else (case str_index xs c of None \<Rightarrow> None | Some i \<Rightarrow> Some (Suc i)))"

text \<open>The idiom \<^verbatim>\<open>s[s.index(":") + 1:]\<close>: the line-number part of a position.\<close>

definition after_colon :: "string \<Rightarrow> string option" where
  "after_colon s = (case str_index s (CHR '':'') of None \<Rightarrow> None | Some i \<Rightarrow> Some (drop (i + 1) s))"

text \<open>Python's \<^verbatim>\<open><\<close> on strings: lexicographic on the code points.\<close>

fun str_less :: "string \<Rightarrow> string \<Rightarrow> bool" where
  "str_less [] [] = False"
| "str_less [] (y # ys) = True"
| "str_less (x # xs) [] = False"
| "str_less (x # xs) (y # ys) =
     (if (of_char x :: nat) < of_char y then True
      else if x = y then str_less xs ys
      else False)"

section \<open>The graph-tool program execution tree\<close>

text \<open>
  The detectors in \<^verbatim>\<open>pattern_detection.py\<close> and \<^verbatim>\<open>task_parallelism_detector.py\<close> work on
  a graph-tool graph: vertices are the indices \<open>0..<n\<close>, an edge always joins two
  existing vertices, and vertex and edge properties are total property maps
  (\<^verbatim>\<open>graph.vp.*\<close>, \<^verbatim>\<open>graph.ep.*\<close>). The edge list is in the order in which
  \<^verbatim>\<open>out_edges()\<close> and \<^verbatim>\<open>in_edges()\<close> enumerate.
\<close>

type_synonym Vertex = nat

record Edge =
  e_source :: Vertex
  e_target :: Vertex
  ep_type :: string
  ep_dtype :: string
  ep_source :: string
  ep_sink :: string
  ep_var :: string

record PETGraph =
  num_vertices :: nat
  edges :: "Edge list"
  vp_id :: "Vertex \<Rightarrow> string"
  vp_type :: "Vertex \<Rightarrow> string"
  vp_name :: "Vertex \<Rightarrow> string"
  vp_startsAtLine :: "Vertex \<Rightarrow> string"
  vp_endsAtLine :: "Vertex \<Rightarrow> string"
  vp_pipeline :: "Vertex \<Rightarrow> real"
  vp_doAll :: "Vertex \<Rightarrow> real"
  vp_reduction :: "Vertex \<Rightarrow> bool"
  vp_geomDecomp :: "Vertex \<Rightarrow> bool"
  vp_mwType :: "Vertex \<Rightarrow> string"
  vp_localVars :: "Vertex \<Rightarrow> string list"
  vp_globalVars :: "Vertex \<Rightarrow> string list"
  vp_viz_contains_task :: "Vertex \<Rightarrow> string"
  vp_viz_contains_taskwait :: "Vertex \<Rightarrow> string"
  vp_viz_omittable :: "Vertex \<Rightarrow> string"

definition vertices :: "PETGraph \<Rightarrow> Vertex list" where
  "vertices g = [0..<num_vertices g]"

definition out_edges :: "PETGraph \<Rightarrow> Vertex \<Rightarrow> Edge list" where
  "out_edges g v = filter (\<lambda>e. e_source e = v) (edges g)"

definition in_edges :: "PETGraph \<Rightarrow> Vertex \<Rightarrow> Edge list" where
  "in_edges g v = filter (\<lambda>e. e_target e = v) (edges g)"

text \<open>\<^verbatim>\<open>find_subnodes(graph, node, criteria)\<close>: the direct children along edges of one type.\<close>

definition find_subnodes :: "PETGraph \<Rightarrow> Vertex \<Rightarrow> string \<Rightarrow> Vertex list" where
  "find_subnodes g node criteria =
     map e_target (filter (\<lambda>e. ep_type e = criteria) (out_edges g node))"

text \<open>
  \<^verbatim>\<open>get_subtree_of_type(root, type)\<close>: pre-order walk over the child edges. The recursion
  depth is bounded by the interpreter; the fuel is that bound, and \<open>None\<close> is the
  RecursionError of a walk that exceeds it (a cycle of child edges always does).
\<close>

fun get_subtree_of_type :: "nat \<Rightarrow> PETGraph \<Rightarrow> Vertex \<Rightarrow> string \<Rightarrow> Vertex list option" where
  "get_subtree_of_type 0 g root_v ty = None"
| "get_subtree_of_type (Suc fuel) g root_v ty =
     (case those (map (\<lambda>e. get_subtree_of_type fuel g (e_target e) ty)
                      (filter (\<lambda>e. ep_type e = ''child'') (out_edges g root_v))) of
        None \<Rightarrow> None
      | Some rs \<Rightarrow>
          Some ((if vp_type g root_v = ty \<or> ty = ''*'' then [root_v] else []) @ concat rs))"

section \<open>Task-parallelism detector: the task tree\<close>

text \<open>
  Module \<^verbatim>\<open>graph_analyzer/pattern_detectors/task_parallelism_detector.py\<close>.
  Vertices of the graph-tool graph are natural numbers; roles (\<^verbatim>\<open>mwType\<close>) and
  source positions (\<^verbatim>\<open>"file:line"\<close>) are Python strings.
\<close>

datatype Task = Task
  (t_node_id: string)
  (t_nodes: "Vertex list")
  (t_start_line: string)
  (t_region_start_line: string)
  (t_region_end_line: "string option")
  (t_end_line: string)
  (t_mw_type: string)
  (t_instruction_count: int)
  (t_workload: int)
  (t_child_tasks: "Task list")

text \<open>
  \<^verbatim>\<open>Task.aggregate(self, other)\<close>: the nodes of \<open>other\<close> are appended, the end line is
  taken from \<open>other\<close>, workload and instruction count are added, and the role is
  recomputed from the role of \<open>other\<close> alone. The result is the updated \<open>self\<close>.
\<close>

definition aggregate :: "Task \<Rightarrow> Task \<Rightarrow> Task" where
  "aggregate self other =
     Task (t_node_id self)
          (t_nodes self @ t_nodes other)
          (t_start_line self)
          (t_region_start_line self)
          (t_region_end_line self)
          (t_end_line other)
          (if t_mw_type other = ''BARRIER_WORKER'' then ''BARRIER_WORKER'' else ''WORKER'')
          (t_instruction_count self + t_instruction_count other)
          (t_workload self + t_workload other)
          (t_child_tasks self)"

section \<open>Task-parallelism detector: role classification\<close>

text \<open>
  \<^verbatim>\<open>depends(pet, source, target)\<close> is imported from the module \<^verbatim>\<open>utils\<close>; the definition
  here follows the method of the same name in \<^verbatim>\<open>pattern_detection.py\<close>
  (\<^verbatim>\<open>PatternDetector.depends\<close>): some node of the subtree of \<open>source\<close> has a RAW edge
  into the subtree of \<open>target\<close>.
\<close>

definition depends :: "nat \<Rightarrow> PETGraph \<Rightarrow> Vertex \<Rightarrow> Vertex \<Rightarrow> bool option" where
  "depends fuel g source target =
     (if source = target then Some False
      else (case get_subtree_of_type fuel g target ''*'' of
              None \<Rightarrow> None
            | Some target_nodes \<Rightarrow>
               (case get_subtree_of_type fuel g source ''*'' of
                  None \<Rightarrow> None
                | Some source_nodes \<Rightarrow>
                    Some (\<exists>node \<in> set source_nodes.
                            \<exists>e \<in> set (out_edges g node).
                              ep_dtype e = ''RAW'' \<and> e_target e \<in> set target_nodes))))"

text \<open>
  \<^verbatim>\<open>__detect_mw_types\<close>, first loop. The inner loop visits the other children of the main
  node; a child that depends on the base child is promoted.
\<close>

definition promote :: "PETGraph \<Rightarrow> Vertex \<Rightarrow> Vertex \<Rightarrow> (Vertex \<Rightarrow> string) \<Rightarrow> (Vertex \<Rightarrow> string)" where
  "promote g node other_node mw =
     (if mw other_node = ''WORKER'' then mw(other_node := ''BARRIER'')
      else
        (let raw_targets = map (\<lambda>e. vp_id g (e_target e))
                             (filter (\<lambda>e. e_target e = node \<and> ep_dtype e = ''RAW'')
                                     (out_edges g other_node));
             repeated = remdups (filter (\<lambda>t. count_list raw_targets t > 1) raw_targets)
         in if length repeated > 0 then mw(other_node := ''BARRIER'')
            else mw(other_node := ''WORKER'')))"

fun mw_other_loop ::
  "nat \<Rightarrow> PETGraph \<Rightarrow> Vertex \<Rightarrow> Vertex list \<Rightarrow> (Vertex \<Rightarrow> string) \<Rightarrow> (Vertex \<Rightarrow> string) option" where
  "mw_other_loop fuel g node [] mw = Some mw"
| "mw_other_loop fuel g node (other_node # rest) mw =
     (case depends fuel g other_node node of
        None \<Rightarrow> None
      | Some d \<Rightarrow>
          mw_other_loop fuel g node rest (if d then promote g node other_node mw else mw))"

fun mw_node_loop ::
  "nat \<Rightarrow> PETGraph \<Rightarrow> Vertex \<Rightarrow> Vertex list \<Rightarrow> (Vertex \<Rightarrow> string) \<Rightarrow> (Vertex \<Rightarrow> string) option" where
  "mw_node_loop fuel g main_node [] mw = Some mw"
| "mw_node_loop fuel g main_node (node # rest) mw =
     (case mw_other_loop fuel g node (remove1 node (find_subnodes g main_node ''child''))
             (if mw node = ''NONE'' \<or> mw node = ''ROOT'' then mw(node := ''FORK'') else mw) of
        None \<Rightarrow> None
      | Some mw' \<Rightarrow> mw_node_loop fuel g main_node rest mw')"

text \<open>
  Second loop: barrier-worker pairs. The test for an edge between \<open>n1\<close> and \<open>n2\<close> looks
  at all out-edges and in-edges of \<open>n1\<close>, whatever their type; on the first barrier
  sibling joined to \<open>n1\<close> the inner loop is left (\<^verbatim>\<open>break\<close>).
\<close>

definition adjacent :: "PETGraph \<Rightarrow> Vertex \<Rightarrow> Vertex \<Rightarrow> bool" where
  "adjacent g n1 n2 \<longleftrightarrow>
     n2 \<in> set (map e_target (out_edges g n1)) \<or> n2 \<in> set (map e_source (in_edges g n1))"

fun pair_inner :: "PETGraph \<Rightarrow> Vertex \<Rightarrow> Vertex list \<Rightarrow> (Vertex \<Rightarrow> string) \<Rightarrow> (Vertex \<Rightarrow> string)" where
  "pair_inner g n1 [] mw = mw"
| "pair_inner g n1 (n2 # rest) mw =
     (if mw n2 = ''BARRIER'' \<and> n1 \<noteq> n2 then
        (if adjacent g n1 n2 then mw
         else pair_inner g n1 rest (mw(n1 := ''BARRIER_WORKER'', n2 := ''BARRIER_WORKER'')))
      else pair_inner g n1 rest mw)"

fun pair_outer :: "PETGraph \<Rightarrow> Vertex list \<Rightarrow> Vertex list \<Rightarrow> (Vertex \<Rightarrow> string) \<Rightarrow> (Vertex \<Rightarrow> string)" where
  "pair_outer g direct_subnodes [] mw = mw"
| "pair_outer g direct_subnodes (n1 # rest) mw =
     pair_outer g direct_subnodes rest
       (if mw n1 = ''BARRIER'' then pair_inner g n1 direct_subnodes mw else mw)"

definition barrier_worker_pairs :: "PETGraph \<Rightarrow> Vertex \<Rightarrow> (Vertex \<Rightarrow> string) \<Rightarrow> (Vertex \<Rightarrow> string)" where
  "barrier_worker_pairs g main_node mw =
     pair_outer g (find_subnodes g main_node ''child'') (find_subnodes g main_node ''child'') mw"

definition classification_pass :: "nat \<Rightarrow> PETGraph \<Rightarrow> Vertex \<Rightarrow> (Vertex \<Rightarrow> string) option" where
  "classification_pass fuel g main_node =
     mw_node_loop fuel g main_node (find_subnodes g main_node ''child'') (vp_mwType g)"

definition detect_mw_types :: "nat \<Rightarrow> PETGraph \<Rightarrow> Vertex \<Rightarrow> PETGraph option" where
  "detect_mw_types fuel g main_node =
     (case classification_pass fuel g main_node of
        None \<Rightarrow> None
      | Some mw \<Rightarrow> Some (g\<lparr>vp_mwType := barrier_worker_pairs g main_node mw\<rparr>))"

section \<open>Task-parallelism detector: taskwait suggestions\<close>

text \<open>
  A suggestion record. The fields \<open>pi_node\<close>, \<open>pi_node_id\<close>, \<open>pi_start_line\<close> and
  \<open>pi_end_line\<close> are set by the base class \<^verbatim>\<open>PatternInfo\<close> from the vertex.
\<close>

record TaskParallelismInfo =
  pi_node :: Vertex
  pi_node_id :: string
  pi_start_line :: string
  pi_end_line :: string
  pragma :: "string list"
  pragma_line :: string
  region_start_line :: string
  region_end_line :: "string option"
  pi_first_private :: "string list"
  pi_private :: "string list"
  pi_shared :: "string list"

definition new_TaskParallelismInfo ::
  "PETGraph \<Rightarrow> Vertex \<Rightarrow> string list \<Rightarrow> string \<Rightarrow> string list \<Rightarrow> string list \<Rightarrow> string list
     \<Rightarrow> TaskParallelismInfo" where
  "new_TaskParallelismInfo g node prag prag_line fp p s =
     \<lparr> pi_node = node,
       pi_node_id = vp_id g node,
       pi_start_line = vp_startsAtLine g node,
       pi_end_line = vp_endsAtLine g node,
       pragma = prag,
       pragma_line = prag_line,
       region_start_line =
         (case str_index prag_line (CHR '':'') of
            None \<Rightarrow> prag_line
          | Some i \<Rightarrow> drop (i + 1) prag_line),
       region_end_line = None,
       pi_first_private = fp,
       pi_private = p,
       pi_shared = s \<rparr>"

text \<open>
  The loop over the out-edges of a barrier vertex in \<^verbatim>\<open>__detect_task_suggestions\<close>.
  \<open>first_number\<close> is \<^verbatim>\<open>first_dependency_line_number\<close>, computed once from the end line
  of the vertex before the loop; the loop assigns \<^verbatim>\<open>first_dependency_line\<close> only.
\<close>

fun first_dependency_loop :: "string \<Rightarrow> Edge list \<Rightarrow> string \<Rightarrow> string option" where
  "first_dependency_loop first_number [] first_dependency_line = Some first_dependency_line"
| "first_dependency_loop first_number (e # es) first_dependency_line =
     (if ep_type e = ''dependence'' then
        (case after_colon (ep_sink e) of
           None \<Rightarrow> None
         | Some dep_line_number \<Rightarrow>
             first_dependency_loop first_number es
               (if str_less dep_line_number first_number then ep_sink e
                else first_dependency_line))
      else first_dependency_loop first_number es first_dependency_line)"

definition first_dependency_line :: "PETGraph \<Rightarrow> Vertex \<Rightarrow> string option" where
  "first_dependency_line g v =
     (case after_colon (vp_endsAtLine g v) of
        None \<Rightarrow> None
      | Some first_number \<Rightarrow> first_dependency_loop first_number (out_edges g v) (vp_endsAtLine g v))"

text \<open>The dictionary from line id to suggestions, in insertion order.\<close>

fun dict_append :: "(string \<times> 'a list) list \<Rightarrow> string \<Rightarrow> 'a \<Rightarrow> (string \<times> 'a list) list" where
  "dict_append [] k x = [(k, [x])]"
| "dict_append ((k', xs) # d) k x =
     (if k' = k then (k', xs @ [x]) # d else (k', xs) # dict_append d k x)"

fun suggest_taskwait ::
  "PETGraph \<Rightarrow> Vertex list \<Rightarrow> (string \<times> TaskParallelismInfo list) list
     \<Rightarrow> (string \<times> TaskParallelismInfo list) list option" where
  "suggest_taskwait g [] suggestions = Some suggestions"
| "suggest_taskwait g (v # vs) suggestions =
     (case first_dependency_line g v of
        None \<Rightarrow> None
      | Some line \<Rightarrow>
          suggest_taskwait g vs
            (dict_append suggestions (vp_startsAtLine g v)
               (new_TaskParallelismInfo g v [''taskwait''] line [] [] [])))"

text \<open>
  The taskwait part of \<^verbatim>\<open>__detect_task_suggestions\<close>: the barrier vertices in vertex
  order, and the suggestions read back from the dictionary. (The second part of the
  function adds suggestions with the pragma \<^verbatim>\<open>task\<close> only.)
\<close>

definition barrier_cus :: "PETGraph \<Rightarrow> Vertex list" where
  "barrier_cus g = filter (\<lambda>v. vp_mwType g v = ''BARRIER'') (vertices g)"

definition taskwait_suggestions :: "PETGraph \<Rightarrow> TaskParallelismInfo list option" where
  "taskwait_suggestions g =
     (case suggest_taskwait g (barrier_cus g) [] of
        None \<Rightarrow> None
      | Some suggestions \<Rightarrow> Some (concat (map snd suggestions)))"

section \<open>Properties of the task tree\<close>

text \<open>
  C5, as stated: the role after \<^verbatim>\<open>aggregate\<close> is BARRIER_WORKER if either task was
  BARRIER_WORKER. This fails when only the receiving task was BARRIER_WORKER: merging a
  WORKER into a BARRIER_WORKER gives WORKER.
\<close>

theorem aggregate_role_counterexample:
  "t_mw_type (Task ''1:1'' [1] ''1:10'' ''10'' None ''1:12'' ''BARRIER_WORKER'' 5 50 []) = ''BARRIER_WORKER''
   \<and> t_mw_type (aggregate
        (Task ''1:1'' [1] ''1:10'' ''10'' None ''1:12'' ''BARRIER_WORKER'' 5 50 [])
        (Task ''1:2'' [2] ''1:13'' ''13'' None ''1:15'' ''WORKER'' 7 70 [])) = ''WORKER''"
  by (simp add: aggregate_def)

text \<open>
  C5, amended: the role after \<^verbatim>\<open>aggregate\<close> is BARRIER_WORKER exactly when the task
  merged in (\<open>other\<close>) was BARRIER_WORKER, and WORKER otherwise; the previous role of the
  receiving task plays no part.
\<close>

theorem aggregate_role:
  "t_mw_type (aggregate self other) =
     (if t_mw_type other = ''BARRIER_WORKER'' then ''BARRIER_WORKER'' else ''WORKER'')"
  by (simp add: aggregate_def)

end
